theory Spec2Isabelle
  imports Complex_Main
begin

section \<open>The weather-by-CEP service (main.go)\<close>

text \<open>
  The development embeds the current revision of \<^verbatim>\<open>main.go\<close>: the one with
  \<^verbatim>\<open>net/url\<close> among its imports, \<^verbatim>\<open>Erro interface{}\<close> in
  \<^verbatim>\<open>ViaCEPResponse\<close> and \<^verbatim>\<open>celsius + 273.15\<close> in
  \<^verbatim>\<open>celsiusToKelvin\<close>. The older revision kept in the same file
  (\<^verbatim>\<open>Erro bool\<close>, \<^verbatim>\<open>celsius + 273\<close>, the location put into the URL as it
  is, a missing key only logged) is not modelled. Go strings are byte sequences,
  modelled as \<^typ>\<open>string\<close>; \<^verbatim>\<open>float64\<close> is modelled by \<^typ>\<open>real\<close>,
  so the rounding of IEEE arithmetic is not part of the model. What the program takes
  from Go's standard library (strings, regexp, net/url, encoding/json, net/http) is
  written out as far as the program uses it.
\<close>

subsection \<open>Strings\<close>

definition isDigit :: "char \<Rightarrow> bool" where
  \<comment> \<open>The class \<^verbatim>\<open>\d\<close> of Go's regexp package: the ASCII digits only.\<close>
  "isDigit c = (c \<in> set ''0123456789'')"

fun ReplaceAll :: "string \<Rightarrow> char \<Rightarrow> string \<Rightarrow> string" where
  \<comment> \<open>\<^verbatim>\<open>strings.ReplaceAll(s, old, new)\<close> for a one-byte \<^verbatim>\<open>old\<close>:
      every occurrence is replaced.\<close>
  "ReplaceAll [] old new = []"
| "ReplaceAll (c # cs) old new =
     (if c = old then new @ ReplaceAll cs old new else c # ReplaceAll cs old new)"

fun matchDigits :: "nat \<Rightarrow> string \<Rightarrow> string option" where
  \<comment> \<open>\<^verbatim>\<open>\d{n}\<close> matched at the front of the text; the rest of the text is returned.\<close>
  "matchDigits 0 s = Some s"
| "matchDigits (Suc n) [] = None"
| "matchDigits (Suc n) (c # cs) = (if isDigit c then matchDigits n cs else None)"

definition MatchString_d8 :: "string \<Rightarrow> bool" where
  \<comment> \<open>\<^verbatim>\<open>regexp.MatchString(`^\d{8}$`, s)\<close>: \<^verbatim>\<open>^\<close> anchors the match at the
      start of the text and \<^verbatim>\<open>$\<close> (no multi-line flag) at its very end.\<close>
  "MatchString_d8 s = (case matchDigits 8 s of Some [] \<Rightarrow> True | _ \<Rightarrow> False)"

definition isValidCEP :: "string \<Rightarrow> bool" where
  "isValidCEP cep = MatchString_d8 (ReplaceAll cep (CHR ''-'') [])"

definition spec_isValidCEP :: "string \<Rightarrow> bool" where
  \<comment> \<open>The validator as the specification words it: one optional separator is stripped,
      then exactly 8 characters, all decimal digits.\<close>
  "spec_isValidCEP raw =
     (let s = remove1 (CHR ''-'') raw in length s = 8 \<and> list_all isDigit s)"

definition TrimPrefix :: "string \<Rightarrow> string \<Rightarrow> string" where
  \<comment> \<open>\<^verbatim>\<open>strings.TrimPrefix(s, prefix)\<close>\<close>
  "TrimPrefix s pre = (if take (length pre) s = pre then drop (length pre) s else s)"

definition spaceLen :: "string \<Rightarrow> nat" where
  \<comment> \<open>The number of bytes of the white-space rune (\<^verbatim>\<open>unicode.IsSpace\<close>) that is
      UTF-8 encoded at the front of the text; 0 when the text starts with no such rune.\<close>
  "spaceLen s =
     (case map of_char (take 3 s) :: nat list of
        [] \<Rightarrow> 0
      | b0 # r1 \<Rightarrow>
          if (9 \<le> b0 \<and> b0 \<le> 13) \<or> b0 = 32 then 1
          else (case r1 of
            [] \<Rightarrow> 0
          | b1 # r2 \<Rightarrow>
              if b0 = 0xC2 \<and> (b1 = 0x85 \<or> b1 = 0xA0) then 2
              else (case r2 of
                [] \<Rightarrow> 0
              | b2 # _ \<Rightarrow>
                  if (b0 = 0xE1 \<and> b1 = 0x9A \<and> b2 = 0x80) \<or>
                     (b0 = 0xE2 \<and> b1 = 0x80 \<and>
                        ((0x80 \<le> b2 \<and> b2 \<le> 0x8A) \<or> b2 = 0xA8 \<or> b2 = 0xA9 \<or> b2 = 0xAF)) \<or>
                     (b0 = 0xE2 \<and> b1 = 0x81 \<and> b2 = 0x9F) \<or>
                     (b0 = 0xE3 \<and> b1 = 0x80 \<and> b2 = 0x80)
                  then 3 else 0)))"

definition spaceLenLast :: "string \<Rightarrow> nat" where
  \<comment> \<open>The same for the rune encoded at the very end of the text.\<close>
  "spaceLenLast s =
     (let n = length s in
      if spaceLen (drop (n - 1) s) = 1 then 1
      else if 2 \<le> n \<and> spaceLen (drop (n - 2) s) = 2 then 2
      else if 3 \<le> n \<and> spaceLen (drop (n - 3) s) = 3 then 3
      else 0)"

function TrimLeft :: "string \<Rightarrow> string" where
  "TrimLeft s = (if spaceLen s = 0 then s else TrimLeft (drop (spaceLen s) s))"
  by pat_completeness auto
termination
proof (relation "measure length")
  show "wf (measure length)" by simp
next
  fix s :: string
  assume "spaceLen s \<noteq> 0"
  moreover have "spaceLen s \<le> length s"
    by (cases s; cases "tl s"; cases "tl (tl s)") (auto simp: spaceLen_def)
  ultimately show "(drop (spaceLen s) s, s) \<in> measure length" by simp
qed

function TrimRight :: "string \<Rightarrow> string" where
  "TrimRight s =
     (if spaceLenLast s = 0 then s else TrimRight (take (length s - spaceLenLast s) s))"
  by pat_completeness auto
termination
proof (relation "measure length")
  show "wf (measure length)" by simp
next
  fix s :: string
  assume "spaceLenLast s \<noteq> 0"
  moreover have "spaceLen t \<le> length t" for t
    by (cases t; cases "tl t"; cases "tl (tl t)") (auto simp: spaceLen_def)
  from this [of "drop (length s - 1) s"] have "spaceLenLast s \<le> length s"
    by (auto simp: spaceLenLast_def Let_def)
  ultimately show "(take (length s - spaceLenLast s) s, s) \<in> measure length" by simp
qed

declare TrimLeft.simps [simp del] TrimRight.simps [simp del]

definition TrimSpace :: "string \<Rightarrow> string" where
  \<comment> \<open>\<^verbatim>\<open>strings.TrimSpace\<close>: leading and trailing white-space runes are removed.\<close>
  "TrimSpace s = TrimRight (TrimLeft s)"

fun itoa :: "nat \<Rightarrow> string" where
  \<comment> \<open>The verb \<^verbatim>\<open>%d\<close> on a status code.\<close>
  "itoa n =
     (if n < 10 then [''0123456789'' ! n]
      else itoa (n div 10) @ [''0123456789'' ! (n mod 10)])"

declare itoa.simps [simp del]

definition toLowerASCII :: "char \<Rightarrow> char" where
  "toLowerASCII c =
     (case map_of (zip ''ABCDEFGHIJKLMNOPQRSTUVWXYZ'' ''abcdefghijklmnopqrstuvwxyz'') c of
        Some l \<Rightarrow> l
      | None \<Rightarrow> c)"

subsection \<open>The query escaping of net/url\<close>

definition unreserved :: string where
  "unreserved = ''abcdefghijklmnopqrstuvwxyzABCDEFGHIJKLMNOPQRSTUVWXYZ0123456789-_.~''"

definition shouldEscape :: "char \<Rightarrow> bool" where
  \<comment> \<open>\<^verbatim>\<open>shouldEscape(c, encodeQueryComponent)\<close>: only the unreserved characters
      (letters, digits and \<^verbatim>\<open>-_.~\<close>) are left as they are.\<close>
  "shouldEscape c = (c \<notin> set unreserved)"

definition upperhex :: string where
  "upperhex = ''0123456789ABCDEF''"

fun QueryEscape :: "string \<Rightarrow> string" where
  "QueryEscape [] = []"
| "QueryEscape (c # cs) =
     (if c = CHR '' '' then CHR ''+'' # QueryEscape cs
      else if shouldEscape c then
        CHR ''%'' # upperhex ! (of_char c div 16) # upperhex ! (of_char c mod 16) # QueryEscape cs
      else c # QueryEscape cs)"

subsection \<open>JSON values, errors and the outside world\<close>

datatype json =
    JNull
  | JBool bool
  | JNumber real
  | JString string
  | JArray "json list"
  | JObject "(string \<times> json) list"

datatype error =
    Errorf string
    \<comment> \<open>\<^verbatim>\<open>fmt.Errorf\<close> with the finished text\<close>
  | UrlError string string string
    \<comment> \<open>\<^verbatim>\<open>*url.Error{Op, URL, Err}\<close>, what \<^verbatim>\<open>http.Get\<close> returns on failure\<close>
  | DecodeError string
    \<comment> \<open>an error of \<^verbatim>\<open>json.Decoder.Decode\<close>, with its text\<close>

fun Error :: "error \<Rightarrow> string" where
  \<comment> \<open>The method \<^verbatim>\<open>Error()\<close>. \<^verbatim>\<open>*url.Error\<close> prints
      \<^verbatim>\<open>Op + " " + strconv.Quote(URL) + ": " + Err\<close>; the quoting is written out for
      URLs that need no escape inside the quotes.\<close>
  "Error (Errorf s) = s"
| "Error (UrlError op u e) = op @ '' '' @ [CHR 0x22] @ u @ [CHR 0x22] @ '': '' @ e"
| "Error (DecodeError s) = s"

datatype body_read =
    Malformed string
    \<comment> \<open>reading the next JSON value from the body fails (I/O or syntax), with the error text\<close>
  | Value json
    \<comment> \<open>the JSON value the decoder reads from the body\<close>

datatype http_result =
    Failed string
    \<comment> \<open>no response: the text of the transport error\<close>
  | Responded nat body_read
    \<comment> \<open>status code and body\<close>

record world =
  getenv :: "string \<Rightarrow> string"
  http_Get :: "string \<Rightarrow> http_result"

definition jsonKind :: "json \<Rightarrow> string" where
  "jsonKind v =
     (case v of JNull \<Rightarrow> ''null'' | JBool _ \<Rightarrow> ''bool'' | JNumber _ \<Rightarrow> ''number''
      | JString _ \<Rightarrow> ''string'' | JArray _ \<Rightarrow> ''array'' | JObject _ \<Rightarrow> ''object'')"

definition UnmarshalTypeError :: "json \<Rightarrow> string \<Rightarrow> string \<Rightarrow> string \<Rightarrow> error" where
  "UnmarshalTypeError v struct field ty =
     DecodeError (''json: cannot unmarshal '' @ jsonKind v @ '' into Go struct field '' @
       struct @ ''.'' @ field @ '' of type '' @ ty)"

definition UnmarshalTopError :: "json \<Rightarrow> string \<Rightarrow> error" where
  "UnmarshalTopError v ty =
     DecodeError (''json: cannot unmarshal '' @ jsonKind v @ '' into Go value of type '' @ ty)"

definition saveError :: "error option \<Rightarrow> error \<Rightarrow> error option" where
  \<comment> \<open>The decoder goes on after a type error and reports the first one at the end.\<close>
  "saveError saved e = (case saved of None \<Rightarrow> Some e | Some e0 \<Rightarrow> Some e0)"

subsection \<open>Decoding the address lookup's answer\<close>

record ViaCEPResponse =
  Cep :: string
  Logradouro :: string
  Complemento :: string
  Bairro :: string
  Localidade :: string
  UF :: string
  Erro :: "json option"

definition zeroViaCEPResponse :: ViaCEPResponse where
  "zeroViaCEPResponse =
     \<lparr>Cep = [], Logradouro = [], Complemento = [], Bairro = [], Localidade = [], UF = [],
      Erro = None\<rparr>"

definition storeString ::
  "json \<Rightarrow> string \<Rightarrow> string \<Rightarrow> (string \<Rightarrow> 'a \<Rightarrow> 'a) \<Rightarrow> 'a \<times> error option \<Rightarrow> 'a \<times> error option" where
  \<comment> \<open>A JSON value stored into a field of type \<^verbatim>\<open>string\<close>: a string is stored,
      \<^verbatim>\<open>null\<close> leaves the field as it is, anything else is a type error.\<close>
  "storeString v struct field upd st =
     (case v of
        JString x \<Rightarrow> (upd x (fst st), snd st)
      | JNull \<Rightarrow> st
      | _ \<Rightarrow> (fst st, saveError (snd st) (UnmarshalTypeError v struct field ''string'')))"

definition decodeViaCEPField ::
  "ViaCEPResponse \<times> error option \<Rightarrow> string \<times> json \<Rightarrow> ViaCEPResponse \<times> error option" where
  \<comment> \<open>One key of the object. A key names a field when it equals the field's tag up to
      the case of ASCII letters; a key that names no field is skipped.\<close>
  "decodeViaCEPField st kv =
     (let k = map toLowerASCII (fst kv); v = snd kv in
      if k = ''cep'' then
        storeString v ''ViaCEPResponse'' ''cep'' (\<lambda>x r. r\<lparr>Cep := x\<rparr>) st
      else if k = ''logradouro'' then
        storeString v ''ViaCEPResponse'' ''logradouro'' (\<lambda>x r. r\<lparr>Logradouro := x\<rparr>) st
      else if k = ''complemento'' then
        storeString v ''ViaCEPResponse'' ''complemento'' (\<lambda>x r. r\<lparr>Complemento := x\<rparr>) st
      else if k = ''bairro'' then
        storeString v ''ViaCEPResponse'' ''bairro'' (\<lambda>x r. r\<lparr>Bairro := x\<rparr>) st
      else if k = ''localidade'' then
        storeString v ''ViaCEPResponse'' ''localidade'' (\<lambda>x r. r\<lparr>Localidade := x\<rparr>) st
      else if k = ''uf'' then
        storeString v ''ViaCEPResponse'' ''uf'' (\<lambda>x r. r\<lparr>UF := x\<rparr>) st
      else if k = ''erro'' then
        ((fst st)\<lparr>Erro := (if v = JNull then None else Some v)\<rparr>, snd st)
      else st)"

definition decodeViaCEP :: "json \<Rightarrow> ViaCEPResponse \<times> error option" where
  \<comment> \<open>\<^verbatim>\<open>Decode(&viaCEP)\<close> on a JSON value: the keys of an object are stored in
      their order (a later duplicate overwrites), \<^verbatim>\<open>null\<close> changes nothing, any other
      value is a type error.\<close>
  "decodeViaCEP v =
     (case v of
        JObject kvs \<Rightarrow> foldl decodeViaCEPField (zeroViaCEPResponse, None) kvs
      | JNull \<Rightarrow> (zeroViaCEPResponse, None)
      | _ \<Rightarrow> (zeroViaCEPResponse, Some (UnmarshalTopError v ''main.ViaCEPResponse'')))"

subsection \<open>Decoding the weather service's answer\<close>

record WeatherAPIResponse =
  Location_Name :: string
  Current_TempC :: real

definition zeroWeatherAPIResponse :: WeatherAPIResponse where
  "zeroWeatherAPIResponse = \<lparr>Location_Name = [], Current_TempC = 0\<rparr>"

definition decodeLocationField ::
  "WeatherAPIResponse \<times> error option \<Rightarrow> string \<times> json \<Rightarrow> WeatherAPIResponse \<times> error option" where
  "decodeLocationField st kv =
     (if map toLowerASCII (fst kv) = ''name'' then
        storeString (snd kv) ''WeatherAPIResponse'' ''location.name''
          (\<lambda>x r. r\<lparr>Location_Name := x\<rparr>) st
      else st)"

definition decodeCurrentField ::
  "WeatherAPIResponse \<times> error option \<Rightarrow> string \<times> json \<Rightarrow> WeatherAPIResponse \<times> error option" where
  "decodeCurrentField st kv =
     (if map toLowerASCII (fst kv) = ''temp_c'' then
        (case snd kv of
           JNumber x \<Rightarrow> ((fst st)\<lparr>Current_TempC := x\<rparr>, snd st)
         | JNull \<Rightarrow> st
         | v \<Rightarrow> (fst st, saveError (snd st)
                  (UnmarshalTypeError v ''WeatherAPIResponse'' ''current.temp_c'' ''float64'')))
      else st)"

definition decodeWeatherField ::
  "WeatherAPIResponse \<times> error option \<Rightarrow> string \<times> json \<Rightarrow> WeatherAPIResponse \<times> error option" where
  \<comment> \<open>The type named in the error text is printed without its struct tag.\<close>
  "decodeWeatherField st kv =
     (let k = map toLowerASCII (fst kv); v = snd kv in
      if k = ''location'' then
        (case v of
           JObject kvs \<Rightarrow> foldl decodeLocationField st kvs
         | JNull \<Rightarrow> st
         | _ \<Rightarrow> (fst st, saveError (snd st)
                  (UnmarshalTypeError v ''WeatherAPIResponse'' ''location''
                     ''struct { Name string }'')))
      else if k = ''current'' then
        (case v of
           JObject kvs \<Rightarrow> foldl decodeCurrentField st kvs
         | JNull \<Rightarrow> st
         | _ \<Rightarrow> (fst st, saveError (snd st)
                  (UnmarshalTypeError v ''WeatherAPIResponse'' ''current''
                     ''struct { TempC float64 }'')))
      else st)"

definition decodeWeatherAPI :: "json \<Rightarrow> WeatherAPIResponse \<times> error option" where
  "decodeWeatherAPI v =
     (case v of
        JObject kvs \<Rightarrow> foldl decodeWeatherField (zeroWeatherAPIResponse, None) kvs
      | JNull \<Rightarrow> (zeroWeatherAPIResponse, None)
      | _ \<Rightarrow> (zeroWeatherAPIResponse, Some (UnmarshalTopError v ''main.WeatherAPIResponse'')))"

subsection \<open>Temperature conversion\<close>

definition celsiusToFahrenheit :: "real \<Rightarrow> real" where
  "celsiusToFahrenheit celsius = celsius * 1.8 + 32"

definition celsiusToKelvin :: "real \<Rightarrow> real" where
  "celsiusToKelvin celsius = celsius + 273.15"

subsection \<open>The two resolvers\<close>

text \<open>
  Each function that talks to the outside returns its result together with the list of
  URLs it has requested with \<^verbatim>\<open>http.Get\<close>, in order. Logging is left out.
\<close>

definition viaCEPURL :: "string \<Rightarrow> string" where
  "viaCEPURL cep = ''https://viacep.com.br/ws/'' @ cep @ ''/json/''"

definition getLocationByCEP :: "world \<Rightarrow> string \<Rightarrow> (error + string) \<times> string list" where
  "getLocationByCEP w cep0 =
     (let cep = ReplaceAll cep0 (CHR ''-'') [];
          url = viaCEPURL cep
      in case http_Get w url of
           Failed e \<Rightarrow> (Inl (UrlError ''Get'' url e), [url])
         | Responded code b \<Rightarrow>
             if code \<noteq> 200 then (Inl (Errorf ''CEP not found''), [url])
             else (case b of
                     Malformed e \<Rightarrow> (Inl (DecodeError e), [url])
                   | Value v \<Rightarrow>
                       (case decodeViaCEP v of
                          (viaCEP, Some err) \<Rightarrow> (Inl err, [url])
                        | (viaCEP, None) \<Rightarrow>
                            if Erro viaCEP \<noteq> None \<or> Localidade viaCEP = []
                            then (Inl (Errorf ''CEP not found''), [url])
                            else (Inr (Localidade viaCEP @ '','' @ UF viaCEP), [url]))))"

definition weatherURL :: "string \<Rightarrow> string \<Rightarrow> string" where
  "weatherURL apiKey encodedLocation =
     ''https://api.weatherapi.com/v1/current.json?key='' @ apiKey @ ''&q='' @ encodedLocation @
     ''&aqi=no''"

definition getTemperature :: "world \<Rightarrow> string \<Rightarrow> (error + real) \<times> string list" where
  "getTemperature w location =
     (let apiKey = getenv w ''WEATHER_API_KEY'' in
      if apiKey = [] then (Inl (Errorf ''weather API key not configured''), [])
      else
        let encodedLocation = QueryEscape location;
            url = weatherURL apiKey encodedLocation
        in case http_Get w url of
             Failed e \<Rightarrow>
               (Inl (Errorf (''failed to connect to weather API: '' @
                       Error (UrlError ''Get'' url e))), [url])
           | Responded code b \<Rightarrow>
               if code \<noteq> 200
               then (Inl (Errorf (''weather API error: status '' @ itoa code)), [url])
               else (case b of
                       Malformed e \<Rightarrow>
                         (Inl (Errorf (''failed to parse weather data: '' @ e)), [url])
                     | Value v \<Rightarrow>
                         (case decodeWeatherAPI v of
                            (weatherAPI, Some err) \<Rightarrow>
                              (Inl (Errorf (''failed to parse weather data: '' @ Error err)), [url])
                          | (weatherAPI, None) \<Rightarrow> (Inr (Current_TempC weatherAPI), [url]))))"

subsection \<open>The handlers\<close>

record request =
  Method :: string
  URL_Path :: string

record response =
  status :: nat
  header :: "(string \<times> string) list"
  body :: "json option"

text \<open>
  \<^verbatim>\<open>Method\<close> and \<^verbatim>\<open>URL_Path\<close> are \<^verbatim>\<open>r.Method\<close> and \<^verbatim>\<open>r.URL.Path\<close>.
  \<^verbatim>\<open>header\<close> holds what the handler has put into \<^verbatim>\<open>w.Header()\<close> when it
  calls \<^verbatim>\<open>WriteHeader\<close>; \<^verbatim>\<open>body\<close> is the value handed to
  \<^verbatim>\<open>json.NewEncoder(w).Encode\<close>, as the JSON value it is written as, and
  \<^const>\<open>None\<close> for a body that net/http writes itself, which is not JSON.
\<close>

definition Header_Set :: "string \<Rightarrow> string \<Rightarrow> (string \<times> string) list \<Rightarrow> (string \<times> string) list" where
  "Header_Set k v h = (k, v) # filter (\<lambda>kv. fst kv \<noteq> k) h"

definition Header_Get :: "(string \<times> string) list \<Rightarrow> string \<Rightarrow> string option" where
  "Header_Get h k = map_of h k"

definition encodeErrorResponse :: "string \<Rightarrow> json" where
  \<comment> \<open>\<^verbatim>\<open>ErrorResponse{Message: m}\<close> with its tag \<^verbatim>\<open>json:"message"\<close>\<close>
  "encodeErrorResponse m = JObject [(''message'', JString m)]"

definition encodeWeatherResponse :: "real \<Rightarrow> real \<Rightarrow> real \<Rightarrow> json" where
  \<comment> \<open>\<^verbatim>\<open>WeatherResponse{TempC, TempF, TempK}\<close> with its tags\<close>
  "encodeWeatherResponse tempC tempF tempK =
     JObject [(''temp_C'', JNumber tempC), (''temp_F'', JNumber tempF), (''temp_K'', JNumber tempK)]"

definition healthHandler :: "request \<Rightarrow> response" where
  "healthHandler r =
     \<lparr>status = 200, header = [], body = Some (JObject [(''status'', JString ''ok'')])\<rparr>"

definition weatherHandler :: "world \<Rightarrow> request \<Rightarrow> response \<times> string list" where
  "weatherHandler w r =
     (let h = Header_Set ''Content-Type'' ''application/json'' [];
          path = TrimPrefix (URL_Path r) ''/weather/'';
          cep = TrimSpace path
      in if \<not> isValidCEP cep then
           (\<lparr>status = 422, header = h, body = Some (encodeErrorResponse ''invalid zipcode'')\<rparr>, [])
         else
           (case getLocationByCEP w cep of
              (Inl err, out1) \<Rightarrow>
                if Error err = ''CEP not found'' then
                  (\<lparr>status = 404, header = h,
                    body = Some (encodeErrorResponse ''can not find zipcode'')\<rparr>, out1)
                else
                  (\<lparr>status = 500, header = h,
                    body = Some (encodeErrorResponse ''internal server error'')\<rparr>, out1)
            | (Inr location, out1) \<Rightarrow>
                (case getTemperature w location of
                   (Inl err, out2) \<Rightarrow>
                     (\<lparr>status = 500, header = h,
                       body = Some (encodeErrorResponse ''error fetching weather data'')\<rparr>,
                      out1 @ out2)
                 | (Inr tempC, out2) \<Rightarrow>
                     let tempF = celsiusToFahrenheit tempC;
                         tempK = celsiusToKelvin tempC
                     in (\<lparr>status = 200, header = h,
                          body = Some (encodeWeatherResponse tempC tempF tempK)\<rparr>,
                         out1 @ out2))))"

subsection \<open>Routing: the default ServeMux as \<^verbatim>\<open>main\<close> fills it\<close>

text \<open>
  \<^verbatim>\<open>main\<close> registers \<^verbatim>\<open>"/weather/"\<close> and \<^verbatim>\<open>"/"\<close> on
  \<^verbatim>\<open>http.DefaultServeMux\<close> and serves with a \<^verbatim>\<open>nil\<close> handler, so every
  request goes through \<^verbatim>\<open>ServeMux.Handler\<close> of net/http (Go 1.21, the version the
  repository names). Its steps are written out here: the subtree redirect for a path that
  lacks the trailing slash of a registered pattern, the redirect to the cleaned path, the
  exact match and the longest registered prefix. Both patterns are host-less, and the
  host of a request is left out of the model.
\<close>

datatype handler =
    WeatherHandler
  | HealthHandler
  | RedirectHandler string
  | NotFoundHandler

record ServeMux =
  m :: "(string \<times> handler) list"
  es :: "(string \<times> handler) list"

definition appendSorted :: "(string \<times> handler) list \<Rightarrow> string \<times> handler \<Rightarrow> (string \<times> handler) list" where
  \<comment> \<open>\<^verbatim>\<open>es\<close> is kept sorted from the longest pattern to the shortest.\<close>
  "appendSorted entries e =
     takeWhile (\<lambda>x. length (fst e) \<le> length (fst x)) entries @ [e] @
     dropWhile (\<lambda>x. length (fst e) \<le> length (fst x)) entries"

definition HandleFunc :: "ServeMux \<Rightarrow> string \<Rightarrow> handler \<Rightarrow> ServeMux" where
  \<comment> \<open>Registration of a new, non-empty pattern (the two of \<^verbatim>\<open>main\<close> are).\<close>
  "HandleFunc mux pattern h =
     \<lparr>m = (pattern, h) # m mux,
      es = (if last pattern = CHR ''/'' then appendSorted (es mux) (pattern, h) else es mux)\<rparr>"

definition DefaultServeMux :: ServeMux where
  "DefaultServeMux =
     HandleFunc (HandleFunc \<lparr>m = [], es = []\<rparr> ''/weather/'' WeatherHandler) ''/'' HealthHandler"

fun splitSlash :: "string \<Rightarrow> string list" where
  \<comment> \<open>the elements of a path, between its slashes\<close>
  "splitSlash [] = [[]]"
| "splitSlash (c # cs) =
     (if c = CHR ''/'' then [] # splitSlash cs
      else (case splitSlash cs of [] \<Rightarrow> [[c]] | x # xs \<Rightarrow> (c # x) # xs))"

fun cleanElems :: "string list \<Rightarrow> string list \<Rightarrow> string list" where
  \<comment> \<open>\<^verbatim>\<open>path.Clean\<close> on a rooted path, element by element: empty and
      \<^verbatim>\<open>.\<close> elements go, \<^verbatim>\<open>..\<close> takes the element before it with it (and
      goes alone at the root). The first argument holds the elements kept, last first.\<close>
  "cleanElems kept [] = rev kept"
| "cleanElems kept (e # rest) =
     (if e = [] \<or> e = ''.'' then cleanElems kept rest
      else if e = ''..'' then cleanElems (tl kept) rest
      else cleanElems (e # kept) rest)"

fun joinSlash :: "string list \<Rightarrow> string" where
  "joinSlash [] = []"
| "joinSlash (e # rest) = CHR ''/'' # e @ joinSlash rest"

definition path_Clean :: "string \<Rightarrow> string" where
  \<comment> \<open>\<^verbatim>\<open>path.Clean\<close> for a path that starts with a slash\<close>
  "path_Clean p =
     (case cleanElems [] (splitSlash p) of [] \<Rightarrow> ''/'' | e # rest \<Rightarrow> joinSlash (e # rest))"

definition cleanPath :: "string \<Rightarrow> string" where
  \<comment> \<open>\<^verbatim>\<open>cleanPath\<close> of net/http: the canonical path, with the trailing slash of
      the original kept.\<close>
  "cleanPath p0 =
     (if p0 = [] then ''/''
      else
        let p = (if hd p0 \<noteq> CHR ''/'' then CHR ''/'' # p0 else p0);
            np = path_Clean p
        in if last p = CHR ''/'' \<and> np \<noteq> ''/'' then np @ ''/'' else np)"

definition mux_match :: "ServeMux \<Rightarrow> string \<Rightarrow> handler option" where
  \<comment> \<open>\<^verbatim>\<open>mux.match\<close>: the exact pattern first, then the longest pattern ending in a
      slash that is a prefix of the path.\<close>
  "mux_match mux p =
     (case map_of (m mux) p of
        Some h \<Rightarrow> Some h
      | None \<Rightarrow>
          (case filter (\<lambda>e. take (length (fst e)) p = fst e) (es mux) of
             [] \<Rightarrow> None
           | e # _ \<Rightarrow> Some (snd e)))"

definition mux_handler :: "ServeMux \<Rightarrow> string \<Rightarrow> handler" where
  "mux_handler mux p = (case mux_match mux p of None \<Rightarrow> NotFoundHandler | Some h \<Rightarrow> h)"

definition shouldRedirect :: "ServeMux \<Rightarrow> string \<Rightarrow> bool" where
  \<comment> \<open>\<^verbatim>\<open>shouldRedirectRLocked\<close>: the path is not registered itself, and the path
      with a slash added is.\<close>
  "shouldRedirect mux p =
     (if map_of (m mux) p \<noteq> None then False
      else if p = [] then False
      else if map_of (m mux) (p @ ''/'') \<noteq> None then last p \<noteq> CHR ''/''
      else False)"

definition mux_Handler :: "ServeMux \<Rightarrow> request \<Rightarrow> handler" where
  \<comment> \<open>\<^verbatim>\<open>ServeMux.Handler\<close>; a \<^verbatim>\<open>CONNECT\<close> request is not canonicalised.\<close>
  "mux_Handler mux r =
     (if Method r = ''CONNECT'' then
        (if shouldRedirect mux (URL_Path r) then RedirectHandler (URL_Path r @ ''/'')
         else mux_handler mux (URL_Path r))
      else
        let p = cleanPath (URL_Path r) in
        if shouldRedirect mux p then RedirectHandler (p @ ''/'')
        else if p \<noteq> URL_Path r then RedirectHandler p
        else mux_handler mux (URL_Path r))"

definition Redirect :: "request \<Rightarrow> string \<Rightarrow> response" where
  \<comment> \<open>\<^verbatim>\<open>http.Redirect\<close> with \<^verbatim>\<open>StatusMovedPermanently\<close>; its body, when there is
      one, is an HTML link.\<close>
  "Redirect r url =
     \<lparr>status = 301,
      header = (if Method r = ''GET'' \<or> Method r = ''HEAD''
                then Header_Set ''Content-Type'' ''text/html; charset=utf-8''
                       (Header_Set ''Location'' url [])
                else Header_Set ''Location'' url []),
      body = None\<rparr>"

definition NotFound :: "request \<Rightarrow> response" where
  \<comment> \<open>\<^verbatim>\<open>http.NotFound\<close>: \<^verbatim>\<open>404 page not found\<close> as plain text\<close>
  "NotFound r =
     \<lparr>status = 404,
      header = Header_Set ''X-Content-Type-Options'' ''nosniff''
                 (Header_Set ''Content-Type'' ''text/plain; charset=utf-8'' []),
      body = None\<rparr>"

definition serve :: "world \<Rightarrow> request \<Rightarrow> response \<times> string list" where
  \<comment> \<open>What the server answers to a request, and what it has requested outside.\<close>
  "serve w r =
     (case mux_Handler DefaultServeMux r of
        WeatherHandler \<Rightarrow> weatherHandler w r
      | HealthHandler \<Rightarrow> (healthHandler r, [])
      | RedirectHandler url \<Rightarrow> (Redirect r url, [])
      | NotFoundHandler \<Rightarrow> (NotFound r, []))"

subsection \<open>A world to run the service in\<close>

definition saoPaulo :: string where
  \<comment> \<open>\<^verbatim>\<open>Sao Paulo\<close>, its first \<^verbatim>\<open>a\<close> with a tilde, in UTF-8\<close>
  "saoPaulo = ''S'' @ [CHR 0xC3, CHR 0xA3] @ ''o Paulo''"

definition exampleWorld :: world where
  "exampleWorld =
     \<lparr>getenv = (\<lambda>k. if k = ''WEATHER_API_KEY'' then ''k3y'' else []),
      http_Get = (\<lambda>u.
        if u = ''https://viacep.com.br/ws/01310100/json/'' then
          Responded 200 (Value (JObject
            [(''cep'', JString ''01310-100''), (''localidade'', JString saoPaulo),
             (''uf'', JString ''SP'')]))
        else if u = ''https://api.weatherapi.com/v1/current.json?key=k3y&q=S%C3%A3o+Paulo%2CSP&aqi=no'' then
          Responded 200 (Value (JObject
            [(''location'', JObject [(''name'', JString ''Sao Paulo'')]),
             (''current'', JObject [(''temp_c'', JNumber 25)])]))
        else if u = ''https://viacep.com.br/ws/99999999/json/'' then
          Responded 200 (Value (JObject [(''erro'', JString ''true'')]))
        else if u = ''https://viacep.com.br/ws/99999998/json/'' then
          Responded 200 (Value (JObject [(''erro'', JBool True)]))
        else if u = ''https://viacep.com.br/ws/99999997/json/'' then
          Responded 200 (Value (JObject [(''cep'', JString ''99999-997''), (''localidade'', JString [])]))
        else if u = ''https://viacep.com.br/ws/00000000/json/'' then
          Responded 400 (Malformed ''invalid character '<' looking for beginning of value'')
        else if u = ''https://viacep.com.br/ws/22222222/json/'' then
          Responded 200 (Malformed ''unexpected EOF'')
        else if u = ''https://viacep.com.br/ws/33333333/json/'' then
          Responded 200 (Value (JObject [(''localidade'', JNumber 7)]))
        else if u = ''https://viacep.com.br/ws/44444444/json/'' then
          Responded 200 (Value (JObject [(''localidade'', JString ''Nowhere''), (''uf'', JString ''XX'')]))
        else if u = ''https://api.weatherapi.com/v1/current.json?key=k3y&q=Nowhere%2CXX&aqi=no'' then
          Responded 400 (Value (JObject [(''error'', JObject [(''code'', JNumber 1006)])]))
        else Failed ''dial tcp: lookup failed'')\<rparr>"

definition noKeyWorld :: world where
  \<comment> \<open>the same world without the credential\<close>
  "noKeyWorld = exampleWorld\<lparr>getenv := (\<lambda>k. [])\<rparr>"

subsection \<open>Notions used to state the properties\<close>

definition cepOf :: "request \<Rightarrow> string" where
  \<comment> \<open>the CEP that \<^const>\<open>weatherHandler\<close> takes from the request path\<close>
  "cepOf r = TrimSpace (TrimPrefix (URL_Path r) ''/weather/'')"

definition jsonReply :: "nat \<Rightarrow> json \<Rightarrow> response" where
  \<comment> \<open>a response of the interface: status code, JSON content type, JSON body\<close>
  "jsonReply code v =
     \<lparr>status = code, header = [(''Content-Type'', ''application/json'')], body = Some v\<rparr>"

definition messageReply :: "nat \<Rightarrow> string \<Rightarrow> response" where
  \<comment> \<open>status code with the body \<^verbatim>\<open>{"message": msg}\<close>\<close>
  "messageReply code msg = jsonReply code (JObject [(''message'', JString msg)])"

definition isUnmarshalError :: "error \<Rightarrow> bool" where
  "isUnmarshalError e =
     (case e of
        DecodeError t \<Rightarrow>
          take (length ''json: cannot unmarshal '') t = ''json: cannot unmarshal ''
      | _ \<Rightarrow> False)"

definition lastValue :: "string \<Rightarrow> (string \<times> json) list \<Rightarrow> json option" where
  \<comment> \<open>the value of the last key of the object that names the field\<close>
  "lastValue name kvs = map_of (rev (map (\<lambda>kv. (map toLowerASCII (fst kv), snd kv)) kvs)) name"

definition stringsOf :: "(string \<times> json) list \<Rightarrow> (string \<times> string) list" where
  \<comment> \<open>the keys of the object that carry a JSON string\<close>
  "stringsOf kvs =
     concat (map (\<lambda>kv. case snd kv of JString x \<Rightarrow> [(map toLowerASCII (fst kv), x)] | _ \<Rightarrow> [])
       kvs)"

definition cityOf :: "(string \<times> json) list \<Rightarrow> string" where
  \<comment> \<open>the city of the object: the last string under \<^verbatim>\<open>localidade\<close>, empty when
      there is none\<close>
  "cityOf kvs = (case map_of (rev (stringsOf kvs)) ''localidade'' of None \<Rightarrow> [] | Some x \<Rightarrow> x)"

definition isStringField :: "string \<Rightarrow> bool" where
  "isStringField k =
     (map toLowerASCII k \<in>
        set [''cep'', ''logradouro'', ''complemento'', ''bairro'', ''localidade'', ''uf''])"

definition wellTyped :: "(string \<times> json) list \<Rightarrow> bool" where
  \<comment> \<open>every key that names a string field of \<^verbatim>\<open>ViaCEPResponse\<close> carries a string
      or \<^verbatim>\<open>null\<close>; the type of \<^verbatim>\<open>erro\<close> is free\<close>
  "wellTyped kvs =
     list_all (\<lambda>kv. if isStringField (fst kv)
                     then (case snd kv of JString _ \<Rightarrow> True | JNull \<Rightarrow> True | _ \<Rightarrow> False)
                     else True) kvs"

section \<open>Properties\<close>

lemma ReplaceAll_delete: "ReplaceAll s c [] = filter (\<lambda>x. x \<noteq> c) s"
  by (induction s) auto

lemma matchDigits_Some:
  "matchDigits n s = Some r \<longleftrightarrow> (n \<le> length s \<and> list_all isDigit (take n s) \<and> r = drop n s)"
proof (induction n s rule: matchDigits.induct)
  case (1 s)
  show ?case by auto
next
  case (2 n)
  show ?case by simp
next
  case (3 n c cs)
  then show ?case by (cases "isDigit c") auto
qed

lemma MatchString_d8_iff: "MatchString_d8 s \<longleftrightarrow> length s = 8 \<and> list_all isDigit s"
proof (cases "matchDigits 8 s")
  case None
  have "\<not> (8 \<le> length s \<and> list_all isDigit (take 8 s))"
    using None matchDigits_Some [of 8 s "drop 8 s"] by auto
  then show ?thesis
    using None by (auto simp: MatchString_d8_def)
next
  case (Some r)
  then have r: "8 \<le> length s" "list_all isDigit (take 8 s)" "r = drop 8 s"
    by (simp_all add: matchDigits_Some)
  show ?thesis
  proof (cases r)
    case Nil
    with r have "length s = 8" by simp
    with r Nil Some show ?thesis by (simp add: MatchString_d8_def)
  next
    case (Cons a as)
    with r have "length s \<noteq> 8" by auto
    with Cons Some show ?thesis by (simp add: MatchString_d8_def)
  qed
qed

text \<open>
  C2 (as the code has it). The validator deletes every hyphen of the raw string, however
  many there are, and accepts exactly when what is left is 8 characters long and all of
  it ASCII decimal digits.
\<close>

theorem isValidCEP_iff:
  "isValidCEP raw \<longleftrightarrow>
     length (filter (\<lambda>c. c \<noteq> CHR ''-'') raw) = 8 \<and>
     list_all isDigit (filter (\<lambda>c. c \<noteq> CHR ''-'') raw)"
  by (simp add: isValidCEP_def MatchString_d8_iff ReplaceAll_delete)

text \<open>
  C2 (as stated) fails: a string of 8 digits with two separators is accepted by the
  code, while stripping a single separator leaves 9 characters.
\<close>

theorem isValidCEP_two_separators:
  "isValidCEP ''01-310-100'' \<and> \<not> spec_isValidCEP ''01-310-100''"
  by (simp add: isValidCEP_def MatchString_d8_iff ReplaceAll_delete spec_isValidCEP_def
      isDigit_def)



lemma weatherHandler_invalid:
  "\<not> isValidCEP (cepOf r) \<Longrightarrow> weatherHandler w r = (messageReply 422 ''invalid zipcode'', [])"
  by (simp add: weatherHandler_def cepOf_def messageReply_def jsonReply_def Header_Set_def
      encodeErrorResponse_def Let_def)

lemma weatherHandler_location_error:
  assumes "isValidCEP (cepOf r)" and "getLocationByCEP w (cepOf r) = (Inl e, out1)"
  shows "weatherHandler w r =
    (if Error e = ''CEP not found'' then messageReply 404 ''can not find zipcode''
     else messageReply 500 ''internal server error'', out1)"
  using assms
  by (simp add: weatherHandler_def cepOf_def messageReply_def jsonReply_def Header_Set_def
      encodeErrorResponse_def Let_def)

lemma weatherHandler_weather_error:
  assumes "isValidCEP (cepOf r)" and "getLocationByCEP w (cepOf r) = (Inr loc, out1)"
    and "getTemperature w loc = (Inl e, out2)"
  shows "weatherHandler w r = (messageReply 500 ''error fetching weather data'', out1 @ out2)"
  using assms
  by (simp add: weatherHandler_def cepOf_def messageReply_def jsonReply_def Header_Set_def
      encodeErrorResponse_def Let_def)

lemma weatherHandler_success:
  assumes "isValidCEP (cepOf r)" and "getLocationByCEP w (cepOf r) = (Inr loc, out1)"
    and "getTemperature w loc = (Inr c, out2)"
  shows "weatherHandler w r =
    (jsonReply 200 (JObject [(''temp_C'', JNumber c), (''temp_F'', JNumber (celsiusToFahrenheit c)),
        (''temp_K'', JNumber (celsiusToKelvin c))]), out1 @ out2)"
  using assms
  by (simp add: weatherHandler_def cepOf_def jsonReply_def Header_Set_def
      encodeWeatherResponse_def Let_def)



text \<open>
  C6. Whatever the location, when the credential \<^verbatim>\<open>WEATHER_API_KEY\<close> is absent
  (empty) the weather resolver returns the error "weather API key not configured" and
  requests nothing outside.
\<close>

theorem getTemperature_not_configured:
  "getenv w ''WEATHER_API_KEY'' = [] \<Longrightarrow>
     getTemperature w location = (Inl (Errorf ''weather API key not configured''), [])"
  by (simp add: getTemperature_def)

theorem getTemperature_not_configured_witness:
  "getenv noKeyWorld ''WEATHER_API_KEY'' = [] \<and>
   http_Get noKeyWorld ''https://api.weatherapi.com/v1/current.json?key=k3y&q=S%C3%A3o+Paulo%2CSP&aqi=no'' =
     Responded 200 (Value (JObject
       [(''location'', JObject [(''name'', JString ''Sao Paulo'')]),
        (''current'', JObject [(''temp_c'', JNumber 25)])])) \<and>
   getTemperature noKeyWorld (saoPaulo @ '',SP'') =
     (Inl (Errorf ''weather API key not configured''), [])"
proof -
  have k: "getenv noKeyWorld ''WEATHER_API_KEY'' = []"
    by (simp add: noKeyWorld_def)
  have g: "http_Get noKeyWorld ''https://api.weatherapi.com/v1/current.json?key=k3y&q=S%C3%A3o+Paulo%2CSP&aqi=no'' =
     Responded 200 (Value (JObject
       [(''location'', JObject [(''name'', JString ''Sao Paulo'')]),
        (''current'', JObject [(''temp_c'', JNumber 25)])]))"
    by (simp add: noKeyWorld_def exampleWorld_def)
  from getTemperature_not_configured [OF k, of "saoPaulo @ '',SP''"] k g show ?thesis
    by simp
qed

lemma weatherHandler_cases:
  "weatherHandler w r = (messageReply 422 ''invalid zipcode'', []) \<or>
   (\<exists>out. weatherHandler w r = (messageReply 404 ''can not find zipcode'', out)) \<or>
   (\<exists>out. weatherHandler w r = (messageReply 500 ''internal server error'', out)) \<or>
   (\<exists>out. weatherHandler w r = (messageReply 500 ''error fetching weather data'', out)) \<or>
   (\<exists>loc c out1 out2. isValidCEP (cepOf r) \<and> getLocationByCEP w (cepOf r) = (Inr loc, out1) \<and>
      getTemperature w loc = (Inr c, out2) \<and>
      weatherHandler w r =
        (jsonReply 200 (JObject [(''temp_C'', JNumber c), (''temp_F'', JNumber (celsiusToFahrenheit c)),
           (''temp_K'', JNumber (celsiusToKelvin c))]), out1 @ out2))"
proof (cases "isValidCEP (cepOf r)")
  case False
  then show ?thesis by (simp add: weatherHandler_invalid)
next
  case valid: True
  obtain res out1 where g: "getLocationByCEP w (cepOf r) = (res, out1)"
    by (cases "getLocationByCEP w (cepOf r)")
  show ?thesis
  proof (cases res)
    case (Inl e)
    with valid g weatherHandler_location_error [of r w e out1] show ?thesis
      by (cases "Error e = ''CEP not found''") auto
  next
    case (Inr loc)
    obtain res2 out2 where t: "getTemperature w loc = (res2, out2)"
      by (cases "getTemperature w loc")
    show ?thesis
    proof (cases res2)
      case (Inl e2)
      with valid g Inr t weatherHandler_weather_error [of r w loc out1 e2 out2] show ?thesis
        by auto
    next
      case (Inr c)
      with valid g \<open>res = Inr loc\<close> t weatherHandler_success [of r w loc out1 c out2]
      show ?thesis by blast
    qed
  qed
qed












lemma isUnmarshalError_text: "isUnmarshalError e \<Longrightarrow> Error e \<noteq> ''CEP not found''"
  by (cases e) (auto simp: isUnmarshalError_def)

lemma isUnmarshalError_intros:
  "isUnmarshalError (UnmarshalTypeError v struct field ty)"
  "isUnmarshalError (UnmarshalTopError v ty)"
  by (simp_all add: isUnmarshalError_def UnmarshalTypeError_def UnmarshalTopError_def)

lemma saveError_cases:
  "saveError saved e = (if saved = None then Some e else saved)"
  by (cases saved) (simp_all add: saveError_def)

lemma storeString_snd:
  "snd (storeString v struct field upd st) =
     (case v of JString x \<Rightarrow> snd st | JNull \<Rightarrow> snd st
      | _ \<Rightarrow> (if snd st = None then Some (UnmarshalTypeError v struct field ''string'') else snd st))"
  by (cases v) (simp_all add: storeString_def saveError_cases)

lemma storeString_fst:
  "fst (storeString v struct field upd st) =
     (case v of JString x \<Rightarrow> upd x (fst st) | _ \<Rightarrow> fst st)"
  by (cases v) (simp_all add: storeString_def)

lemma decodeViaCEPField_snd:
  "snd (decodeViaCEPField st kv) = None \<longleftrightarrow>
     snd st = None \<and>
     (if isStringField (fst kv)
      then (case snd kv of JString _ \<Rightarrow> True | JNull \<Rightarrow> True | _ \<Rightarrow> False) else True)"
  by (cases "snd kv")
    (auto simp: decodeViaCEPField_def Let_def storeString_snd isStringField_def)

lemma decodeViaCEPField_inv:
  assumes "\<forall>e. snd st = Some e \<longrightarrow> isUnmarshalError e"
  shows "\<forall>e. snd (decodeViaCEPField st kv) = Some e \<longrightarrow> isUnmarshalError e"
  using assms
  by (cases "snd kv")
    (auto simp: decodeViaCEPField_def Let_def storeString_snd isUnmarshalError_intros
      split: if_splits)

lemma decodeViaCEPField_Erro:
  "Erro (fst (decodeViaCEPField st kv)) =
     (if map toLowerASCII (fst kv) = ''erro''
      then (if snd kv = JNull then None else Some (snd kv))
      else Erro (fst st))"
  by (cases "snd kv") (auto simp: decodeViaCEPField_def Let_def storeString_fst)

lemma decodeViaCEPField_Localidade:
  "Localidade (fst (decodeViaCEPField st kv)) =
     (if map toLowerASCII (fst kv) = ''localidade''
      then (case snd kv of JString x \<Rightarrow> x | _ \<Rightarrow> Localidade (fst st))
      else Localidade (fst st))"
  by (cases "snd kv") (auto simp: decodeViaCEPField_def Let_def storeString_fst)

lemma foldl_decode_snd:
  "snd (foldl decodeViaCEPField st kvs) = None \<longleftrightarrow> snd st = None \<and> wellTyped kvs"
proof (induction kvs arbitrary: st)
  case Nil
  show ?case by (simp add: wellTyped_def)
next
  case (Cons kv kvs)
  show ?case
    using Cons.IH [of "decodeViaCEPField st kv"] decodeViaCEPField_snd [of st kv]
    by (auto simp: wellTyped_def)
qed

lemma foldl_decode_inv:
  "\<forall>e. snd st = Some e \<longrightarrow> isUnmarshalError e \<Longrightarrow>
   \<forall>e. snd (foldl decodeViaCEPField st kvs) = Some e \<longrightarrow> isUnmarshalError e"
proof (induction kvs arbitrary: st)
  case Nil
  then show ?case by simp
next
  case (Cons kv kvs)
  from Cons.prems have "\<forall>e. snd (decodeViaCEPField st kv) = Some e \<longrightarrow> isUnmarshalError e"
    by (rule decodeViaCEPField_inv)
  from Cons.IH [OF this] show ?case by simp
qed

lemma decodeViaCEP_error: "snd (decodeViaCEP v) = Some e \<Longrightarrow> isUnmarshalError e"
proof (cases v)
  case (JObject kvs)
  assume "snd (decodeViaCEP v) = Some e"
  with JObject foldl_decode_inv [of "(zeroViaCEPResponse, None)" kvs] show ?thesis
    by (simp add: decodeViaCEP_def)
qed (auto simp: decodeViaCEP_def isUnmarshalError_intros)

lemma foldl_decode_Erro:
  "Erro (fst (foldl decodeViaCEPField st kvs)) =
     (case lastValue ''erro'' kvs of
        None \<Rightarrow> Erro (fst st)
      | Some v \<Rightarrow> if v = JNull then None else Some v)"
proof (induction kvs rule: rev_induct)
  case Nil
  show ?case by (simp add: lastValue_def)
next
  case (snoc kv kvs)
  have "lastValue ''erro'' (kvs @ [kv]) =
      (if map toLowerASCII (fst kv) = ''erro'' then Some (snd kv) else lastValue ''erro'' kvs)"
    by (simp add: lastValue_def)
  with snoc show ?case
    by (simp add: decodeViaCEPField_Erro)
qed

lemma foldl_decode_Localidade:
  "Localidade (fst (foldl decodeViaCEPField st kvs)) =
     (case map_of (rev (stringsOf kvs)) ''localidade'' of
        None \<Rightarrow> Localidade (fst st)
      | Some x \<Rightarrow> x)"
proof (induction kvs rule: rev_induct)
  case Nil
  show ?case by (simp add: stringsOf_def)
next
  case (snoc kv kvs)
  have "map_of (rev (stringsOf (kvs @ [kv]))) ''localidade'' =
      (case snd kv of
         JString x \<Rightarrow> if map toLowerASCII (fst kv) = ''localidade'' then Some x
                       else map_of (rev (stringsOf kvs)) ''localidade''
       | _ \<Rightarrow> map_of (rev (stringsOf kvs)) ''localidade'')"
    by (cases "snd kv") (simp_all add: stringsOf_def)
  with snoc show ?case
    by (cases "snd kv") (simp_all add: decodeViaCEPField_Localidade)
qed

lemma decodeViaCEP_object:
  assumes "wellTyped kvs"
  shows "snd (decodeViaCEP (JObject kvs)) = None"
    and "Erro (fst (decodeViaCEP (JObject kvs))) =
           (case lastValue ''erro'' kvs of None \<Rightarrow> None
            | Some v \<Rightarrow> if v = JNull then None else Some v)"
    and "Localidade (fst (decodeViaCEP (JObject kvs))) = cityOf kvs"
proof -
  show "snd (decodeViaCEP (JObject kvs)) = None"
    using assms by (simp add: decodeViaCEP_def foldl_decode_snd)
  show "Erro (fst (decodeViaCEP (JObject kvs))) =
           (case lastValue ''erro'' kvs of None \<Rightarrow> None
            | Some v \<Rightarrow> if v = JNull then None else Some v)"
    by (simp add: decodeViaCEP_def foldl_decode_Erro zeroViaCEPResponse_def split: option.split)
  show "Localidade (fst (decodeViaCEP (JObject kvs))) = cityOf kvs"
    by (simp add: decodeViaCEP_def foldl_decode_Localidade zeroViaCEPResponse_def cityOf_def
        split: option.split)
qed

lemma getLocationByCEP_decoded:
  assumes "http_Get w (viaCEPURL (ReplaceAll c (CHR ''-'') [])) = Responded 200 (Value v)"
  shows "fst (getLocationByCEP w c) =
    (case snd (decodeViaCEP v) of
       Some err \<Rightarrow> Inl err
     | None \<Rightarrow>
         if Erro (fst (decodeViaCEP v)) \<noteq> None \<or> Localidade (fst (decodeViaCEP v)) = []
         then Inl (Errorf ''CEP not found'')
         else Inr (Localidade (fst (decodeViaCEP v)) @ '','' @ UF (fst (decodeViaCEP v))))"
  using assms
  by (cases "decodeViaCEP v") (auto simp: getLocationByCEP_def Let_def split: option.split)

lemma weatherHandler_not_found:
  assumes "isValidCEP (cepOf r)"
    and "fst (getLocationByCEP w (cepOf r)) = Inl (Errorf ''CEP not found'')"
  shows "fst (weatherHandler w r) = messageReply 404 ''can not find zipcode''"
proof -
  obtain out where "getLocationByCEP w (cepOf r) = (Inl (Errorf ''CEP not found''), out)"
    using assms(2) by (cases "getLocationByCEP w (cepOf r)") simp
  from weatherHandler_location_error [OF assms(1) this] show ?thesis by simp
qed

lemma weatherHandler_internal:
  assumes "isValidCEP (cepOf r)"
    and "fst (getLocationByCEP w (cepOf r)) = Inl e" and "Error e \<noteq> ''CEP not found''"
  shows "fst (weatherHandler w r) = messageReply 500 ''internal server error''"
proof -
  obtain out where "getLocationByCEP w (cepOf r) = (Inl e, out)"
    using assms(2) by (cases "getLocationByCEP w (cepOf r)") simp
  from weatherHandler_location_error [OF assms(1) this] assms(3) show ?thesis by simp
qed

text \<open>
  C4. When the address service answers 200 with a JSON object whose string fields are
  well typed, and the object marks "not found" with \<^verbatim>\<open>erro\<close> as a boolean or as
  a string, or carries no city (\<^verbatim>\<open>localidade\<close> absent or empty), the postal resolver
  returns the error "CEP not found", not a decode error, and the request is answered with
  404 \<^verbatim>\<open>{"message":"can not find zipcode"}\<close>.
\<close>

theorem getLocationByCEP_not_found_markers:
  assumes valid: "isValidCEP (cepOf r)"
    and reply: "http_Get w (viaCEPURL (ReplaceAll (cepOf r) (CHR ''-'') [])) =
                  Responded 200 (Value (JObject kvs))"
    and typed: "wellTyped kvs"
    and marker: "lastValue ''erro'' kvs = Some (JBool flag) \<or>
                 lastValue ''erro'' kvs = Some (JString text) \<or>
                 cityOf kvs = []"
  shows "fst (getLocationByCEP w (cepOf r)) = Inl (Errorf ''CEP not found'') \<and>
         fst (weatherHandler w r) = messageReply 404 ''can not find zipcode''"
proof -
  from marker have "Erro (fst (decodeViaCEP (JObject kvs))) \<noteq> None \<or>
      Localidade (fst (decodeViaCEP (JObject kvs))) = []"
    using decodeViaCEP_object(2,3) [OF typed] by auto
  with getLocationByCEP_decoded [OF reply] decodeViaCEP_object(1) [OF typed]
  have nf: "fst (getLocationByCEP w (cepOf r)) = Inl (Errorf ''CEP not found'')"
    by simp
  with weatherHandler_not_found [OF valid] show ?thesis by simp
qed

theorem getLocationByCEP_not_found_markers_witness:
  "fst (getLocationByCEP exampleWorld ''99999999'') = Inl (Errorf ''CEP not found'') \<and>
   fst (weatherHandler exampleWorld \<lparr>Method = ''GET'', URL_Path = ''/weather/99999999''\<rparr>) =
     messageReply 404 ''can not find zipcode'' \<and>
   fst (getLocationByCEP exampleWorld ''99999998'') = Inl (Errorf ''CEP not found'') \<and>
   fst (weatherHandler exampleWorld \<lparr>Method = ''GET'', URL_Path = ''/weather/99999998''\<rparr>) =
     messageReply 404 ''can not find zipcode'' \<and>
   fst (getLocationByCEP exampleWorld ''99999997'') = Inl (Errorf ''CEP not found'') \<and>
   fst (weatherHandler exampleWorld \<lparr>Method = ''GET'', URL_Path = ''/weather/99999997''\<rparr>) =
     messageReply 404 ''can not find zipcode''"
proof -
  let ?r1 = "\<lparr>Method = ''GET'', URL_Path = ''/weather/99999999''\<rparr>"
  let ?r2 = "\<lparr>Method = ''GET'', URL_Path = ''/weather/99999998''\<rparr>"
  let ?r3 = "\<lparr>Method = ''GET'', URL_Path = ''/weather/99999997''\<rparr>"
  let ?k1 = "[(''erro'', JString ''true'')]"
  let ?k2 = "[(''erro'', JBool True)]"
  let ?k3 = "[(''cep'', JString ''99999-997''), (''localidade'', JString [])]"
  have c: "cepOf ?r1 = ''99999999''" "cepOf ?r2 = ''99999998''" "cepOf ?r3 = ''99999997''"
    by code_simp+
  have v: "isValidCEP ''99999999''" "isValidCEP ''99999998''" "isValidCEP ''99999997''"
    by code_simp+
  have g: "http_Get exampleWorld (viaCEPURL (ReplaceAll ''99999999'' (CHR ''-'') [])) =
             Responded 200 (Value (JObject ?k1))"
    "http_Get exampleWorld (viaCEPURL (ReplaceAll ''99999998'' (CHR ''-'') [])) =
             Responded 200 (Value (JObject ?k2))"
    "http_Get exampleWorld (viaCEPURL (ReplaceAll ''99999997'' (CHR ''-'') [])) =
             Responded 200 (Value (JObject ?k3))"
    by (simp_all add: exampleWorld_def viaCEPURL_def)
  have t: "wellTyped ?k1" "wellTyped ?k2" "wellTyped ?k3"
    by code_simp+
  have m: "lastValue ''erro'' ?k1 = Some (JString ''true'')"
    "lastValue ''erro'' ?k2 = Some (JBool True)"
    "cityOf ?k3 = []"
    by code_simp+
  from getLocationByCEP_not_found_markers [of ?r1 exampleWorld ?k1 _ "''true''"] c v g t m
  have one: "fst (getLocationByCEP exampleWorld ''99999999'') = Inl (Errorf ''CEP not found'') \<and>
      fst (weatherHandler exampleWorld ?r1) = messageReply 404 ''can not find zipcode''"
    by simp
  from getLocationByCEP_not_found_markers [of ?r2 exampleWorld ?k2 True] c v g t m
  have two: "fst (getLocationByCEP exampleWorld ''99999998'') = Inl (Errorf ''CEP not found'') \<and>
      fst (weatherHandler exampleWorld ?r2) = messageReply 404 ''can not find zipcode''"
    by simp
  from getLocationByCEP_not_found_markers [of ?r3 exampleWorld ?k3] c v g t m
  have three: "fst (getLocationByCEP exampleWorld ''99999997'') = Inl (Errorf ''CEP not found'') \<and>
      fst (weatherHandler exampleWorld ?r3) = messageReply 404 ''can not find zipcode''"
    by simp
  from one two three show ?thesis by blast
qed

text \<open>
  C5. For a well-formed CEP: an answer of the address service with a status other than
  200 is "CEP not found" and is answered with 404; an unreachable service, a body from
  which no JSON value can be read (the decoder's error text being one of its own, not the
  text "CEP not found") and a JSON value that does not fit \<^verbatim>\<open>ViaCEPResponse\<close> are
  answered with 500 \<^verbatim>\<open>{"message":"internal server error"}\<close>.
\<close>

theorem getLocationByCEP_status_and_errors:
  assumes valid: "isValidCEP (cepOf r)"
  shows "(http_Get w (viaCEPURL (ReplaceAll (cepOf r) (CHR ''-'') [])) = Responded code b \<and>
          code \<noteq> 200 \<longrightarrow>
            fst (getLocationByCEP w (cepOf r)) = Inl (Errorf ''CEP not found'') \<and>
            fst (weatherHandler w r) = messageReply 404 ''can not find zipcode'') \<and>
         (http_Get w (viaCEPURL (ReplaceAll (cepOf r) (CHR ''-'') [])) = Failed t \<longrightarrow>
            fst (weatherHandler w r) = messageReply 500 ''internal server error'') \<and>
         (http_Get w (viaCEPURL (ReplaceAll (cepOf r) (CHR ''-'') [])) =
            Responded 200 (Malformed t) \<and> t \<noteq> ''CEP not found'' \<longrightarrow>
            fst (weatherHandler w r) = messageReply 500 ''internal server error'') \<and>
         (http_Get w (viaCEPURL (ReplaceAll (cepOf r) (CHR ''-'') [])) =
            Responded 200 (Value v) \<and> snd (decodeViaCEP v) \<noteq> None \<longrightarrow>
            fst (weatherHandler w r) = messageReply 500 ''internal server error'')"
proof -
  let ?u = "viaCEPURL (ReplaceAll (cepOf r) (CHR ''-'') [])"
  have a: "http_Get w ?u = Responded code b \<and> code \<noteq> 200 \<longrightarrow>
            fst (getLocationByCEP w (cepOf r)) = Inl (Errorf ''CEP not found'') \<and>
            fst (weatherHandler w r) = messageReply 404 ''can not find zipcode''"
  proof
    assume h: "http_Get w ?u = Responded code b \<and> code \<noteq> 200"
    then have "fst (getLocationByCEP w (cepOf r)) = Inl (Errorf ''CEP not found'')"
      by (simp add: getLocationByCEP_def Let_def)
    with weatherHandler_not_found [OF valid] show
      "fst (getLocationByCEP w (cepOf r)) = Inl (Errorf ''CEP not found'') \<and>
       fst (weatherHandler w r) = messageReply 404 ''can not find zipcode''"
      by simp
  qed
  have b: "http_Get w ?u = Failed t \<longrightarrow>
            fst (weatherHandler w r) = messageReply 500 ''internal server error''"
  proof
    assume h: "http_Get w ?u = Failed t"
    then have "fst (getLocationByCEP w (cepOf r)) = Inl (UrlError ''Get'' ?u t)"
      by (simp add: getLocationByCEP_def Let_def)
    moreover have "Error (UrlError ''Get'' ?u t) \<noteq> ''CEP not found''"
      by simp
    ultimately show "fst (weatherHandler w r) = messageReply 500 ''internal server error''"
      by (rule weatherHandler_internal [OF valid])
  qed
  have c: "http_Get w ?u = Responded 200 (Malformed t) \<and> t \<noteq> ''CEP not found'' \<longrightarrow>
            fst (weatherHandler w r) = messageReply 500 ''internal server error''"
  proof
    assume h: "http_Get w ?u = Responded 200 (Malformed t) \<and> t \<noteq> ''CEP not found''"
    then have "fst (getLocationByCEP w (cepOf r)) = Inl (DecodeError t)"
      by (simp add: getLocationByCEP_def Let_def)
    moreover from h have "Error (DecodeError t) \<noteq> ''CEP not found''"
      by simp
    ultimately show "fst (weatherHandler w r) = messageReply 500 ''internal server error''"
      by (rule weatherHandler_internal [OF valid])
  qed
  have d: "http_Get w ?u = Responded 200 (Value v) \<and> snd (decodeViaCEP v) \<noteq> None \<longrightarrow>
            fst (weatherHandler w r) = messageReply 500 ''internal server error''"
  proof
    assume h: "http_Get w ?u = Responded 200 (Value v) \<and> snd (decodeViaCEP v) \<noteq> None"
    then obtain err where err: "snd (decodeViaCEP v) = Some err"
      by auto
    with h getLocationByCEP_decoded [of w "cepOf r" v]
    have "fst (getLocationByCEP w (cepOf r)) = Inl err"
      by simp
    moreover from err have "Error err \<noteq> ''CEP not found''"
      by (intro isUnmarshalError_text decodeViaCEP_error)
    ultimately show "fst (weatherHandler w r) = messageReply 500 ''internal server error''"
      by (rule weatherHandler_internal [OF valid])
  qed
  from a b c d show ?thesis by blast
qed

theorem getLocationByCEP_status_and_errors_witness:
  "fst (getLocationByCEP exampleWorld ''00000000'') = Inl (Errorf ''CEP not found'') \<and>
   fst (weatherHandler exampleWorld \<lparr>Method = ''GET'', URL_Path = ''/weather/00000000''\<rparr>) =
     messageReply 404 ''can not find zipcode'' \<and>
   fst (weatherHandler exampleWorld \<lparr>Method = ''GET'', URL_Path = ''/weather/11111111''\<rparr>) =
     messageReply 500 ''internal server error'' \<and>
   fst (weatherHandler exampleWorld \<lparr>Method = ''GET'', URL_Path = ''/weather/22222222''\<rparr>) =
     messageReply 500 ''internal server error'' \<and>
   fst (weatherHandler exampleWorld \<lparr>Method = ''GET'', URL_Path = ''/weather/33333333''\<rparr>) =
     messageReply 500 ''internal server error''"
proof -
  let ?r0 = "\<lparr>Method = ''GET'', URL_Path = ''/weather/00000000''\<rparr>"
  let ?r1 = "\<lparr>Method = ''GET'', URL_Path = ''/weather/11111111''\<rparr>"
  let ?r2 = "\<lparr>Method = ''GET'', URL_Path = ''/weather/22222222''\<rparr>"
  let ?r3 = "\<lparr>Method = ''GET'', URL_Path = ''/weather/33333333''\<rparr>"
  let ?v3 = "JObject [(''localidade'', JNumber 7)]"
  have c: "cepOf ?r0 = ''00000000''" "cepOf ?r1 = ''11111111''" "cepOf ?r2 = ''22222222''"
    "cepOf ?r3 = ''33333333''"
    by code_simp+
  have v: "isValidCEP ''00000000''" "isValidCEP ''11111111''" "isValidCEP ''22222222''"
    "isValidCEP ''33333333''"
    by code_simp+
  have g: "http_Get exampleWorld (viaCEPURL (ReplaceAll ''00000000'' (CHR ''-'') [])) =
             Responded 400 (Malformed ''invalid character '<' looking for beginning of value'')"
    "http_Get exampleWorld (viaCEPURL (ReplaceAll ''11111111'' (CHR ''-'') [])) =
             Failed ''dial tcp: lookup failed''"
    "http_Get exampleWorld (viaCEPURL (ReplaceAll ''22222222'' (CHR ''-'') [])) =
             Responded 200 (Malformed ''unexpected EOF'')"
    "http_Get exampleWorld (viaCEPURL (ReplaceAll ''33333333'' (CHR ''-'') [])) =
             Responded 200 (Value ?v3)"
    by (simp_all add: exampleWorld_def viaCEPURL_def)
  have d: "snd (decodeViaCEP ?v3) \<noteq> None"
    by code_simp
  have n: "(400::nat) \<noteq> 200" "''unexpected EOF'' \<noteq> ''CEP not found''"
    by simp_all
  from getLocationByCEP_status_and_errors [of ?r0 exampleWorld 400
      "Malformed ''invalid character '<' looking for beginning of value''"] c v g n
  have zero: "fst (getLocationByCEP exampleWorld ''00000000'') = Inl (Errorf ''CEP not found'') \<and>
      fst (weatherHandler exampleWorld ?r0) = messageReply 404 ''can not find zipcode''"
    by simp
  from getLocationByCEP_status_and_errors [of ?r1 exampleWorld _ _ "''dial tcp: lookup failed''"]
    c v g
  have one: "fst (weatherHandler exampleWorld ?r1) = messageReply 500 ''internal server error''"
    by simp
  from getLocationByCEP_status_and_errors [of ?r2 exampleWorld _ _ "''unexpected EOF''"] c v g n
  have two: "fst (weatherHandler exampleWorld ?r2) = messageReply 500 ''internal server error''"
    by simp
  from getLocationByCEP_status_and_errors [of ?r3 exampleWorld _ _ _ ?v3] c v g d
  have three: "fst (weatherHandler exampleWorld ?r3) = messageReply 500 ''internal server error''"
    by simp
  from zero one two three show ?thesis by blast
qed

lemma DefaultServeMux_eval:
  "m DefaultServeMux = [(''/'', HealthHandler), (''/weather/'', WeatherHandler)]"
  "es DefaultServeMux = [(''/weather/'', WeatherHandler), (''/'', HealthHandler)]"
  by (simp_all add: DefaultServeMux_def HandleFunc_def appendSorted_def)

lemma joinSlash_hd: "joinSlash (e # rest) \<noteq> [] \<and> hd (joinSlash (e # rest)) = CHR ''/''"
  by simp

lemma path_Clean_hd: "path_Clean p \<noteq> [] \<and> hd (path_Clean p) = CHR ''/''"
  by (cases "cleanElems [] (splitSlash p)") (simp_all add: path_Clean_def)

lemma cleanPath_hd: "cleanPath p \<noteq> [] \<and> hd (cleanPath p) = CHR ''/''"
  using path_Clean_hd [of p] path_Clean_hd [of "CHR ''/'' # p"]
  by (auto simp: cleanPath_def Let_def)

lemma shouldRedirect_Default: "shouldRedirect DefaultServeMux p \<longleftrightarrow> p = ''/weather''"
proof -
  have "p @ ''/'' = ''/weather'' @ ''/'' \<longleftrightarrow> p = ''/weather''"
    by (simp only: append1_eq_conv) simp
  then have "p @ ''/'' = ''/weather/'' \<longleftrightarrow> p = ''/weather''"
    by simp
  then show ?thesis
    by (auto simp: shouldRedirect_def DefaultServeMux_eval)
qed

lemma mux_handler_Default:
  assumes "p \<noteq> []" and "hd p = CHR ''/''"
  shows "mux_handler DefaultServeMux p =
    (if take 9 p = ''/weather/'' then WeatherHandler else HealthHandler)"
proof -
  from assms have one: "take (Suc 0) p = ''/''"
    by (cases p) simp_all
  have nine: "(9::nat) = Suc (Suc (Suc (Suc (Suc (Suc (Suc (Suc (Suc 0))))))))"
    by simp
  have "p = ''/weather/'' \<Longrightarrow> take 9 p = ''/weather/''"
    by simp
  with one show ?thesis
    unfolding nine by (auto simp: mux_handler_def mux_match_def DefaultServeMux_eval)
qed

lemma mux_Handler_health:
  assumes clean: "cleanPath (URL_Path r) = URL_Path r"
    and nw: "URL_Path r \<noteq> ''/weather''"
    and np: "take 9 (URL_Path r) \<noteq> ''/weather/''"
  shows "mux_Handler DefaultServeMux r = HealthHandler"
proof -
  from cleanPath_hd [of "URL_Path r"] clean
  have "URL_Path r \<noteq> []" and "hd (URL_Path r) = CHR ''/''"
    by simp_all
  then have "mux_handler DefaultServeMux (URL_Path r) = HealthHandler"
    using np by (simp add: mux_handler_Default)
  with clean nw show ?thesis
    by (simp add: mux_Handler_def shouldRedirect_Default)
qed







text \<open>
  C9 at \<^verbatim>\<open>GET /\<close>: the health handler writes status 200 and a JSON body and never
  sets \<^verbatim>\<open>Content-Type\<close>, so the answer does not carry
  \<^verbatim>\<open>Content-Type: application/json\<close>; every answer of \<^const>\<open>weatherHandler\<close>
  does.
\<close>

theorem healthHandler_content_type:
  "healthHandler r =
     \<lparr>status = 200, header = [], body = Some (JObject [(''status'', JString ''ok'')])\<rparr> \<and>
   Header_Get (header (healthHandler r)) ''Content-Type'' = None \<and>
   serve w \<lparr>Method = ''GET'', URL_Path = ''/''\<rparr> =
     (healthHandler \<lparr>Method = ''GET'', URL_Path = ''/''\<rparr>, []) \<and>
   Header_Get (header (fst (serve w \<lparr>Method = ''GET'', URL_Path = ''/''\<rparr>))) ''Content-Type'' \<noteq>
     Some ''application/json'' \<and>
   Header_Get (header (fst (weatherHandler w r))) ''Content-Type'' = Some ''application/json''"
proof -
  have root: "mux_Handler DefaultServeMux \<lparr>Method = ''GET'', URL_Path = ''/''\<rparr> = HealthHandler"
  proof -
    have "cleanPath ''/'' = ''/''" by code_simp
    then show ?thesis by (simp add: mux_Handler_health)
  qed
  have wh: "Header_Get (header (fst (weatherHandler w r))) ''Content-Type'' = Some ''application/json''"
    using weatherHandler_cases [of w r]
    by (auto simp: messageReply_def jsonReply_def Header_Get_def)
  from root wh show ?thesis
    by (simp add: serve_def healthHandler_def Header_Get_def)
qed

end
